theory Spec2Isabelle
  imports Main
begin

section \<open>The OS bootstrap shim of zig-sqlite (c/os.c)\<close>

text \<open>
  The file defines the two lifecycle hooks of SQLite's OS layer:
  \<^verbatim>\<open>
  extern sqlite3_vfs *sqlite3_demovfs(void);

  int sqlite3_os_init()
  {
      sqlite3_vfs_register(sqlite3_demovfs(), 0);
      return 0;
  }

  int sqlite3_os_end()
  {
      return 0;
  }
  \<close>
  Both functions take no argument; what they read and change is the state of the
  process. The two functions they call, \<open>sqlite3_demovfs\<close> and
  \<open>sqlite3_vfs_register\<close>, are declared but not defined in this file, so the model
  takes them as parameters: any pair of functions on any type \<open>'w\<close> of process-wide
  state. Every external call is also written to a log, so that a statement about which
  calls were made, in which order and with which arguments can be made.
\<close>

subsection \<open>Process state and the external functions\<close>

text \<open>
  A \<open>sqlite3_vfs *\<close> is an address; the shim never looks behind it. The C \<open>int\<close>s
  (the flag \<open>makeDflt\<close> and the status codes) are never computed with, only passed
  on and returned, so they are plain integers here.
\<close>

type_synonym vfs_ptr = nat

datatype call =
    Call_demovfs vfs_ptr
  | Call_vfs_register vfs_ptr int int

text \<open>
  \<open>Call_demovfs p\<close>: a call \<open>sqlite3_demovfs()\<close> that returned \<open>p\<close>.
  \<open>Call_vfs_register p f rc\<close>: a call \<open>sqlite3_vfs_register(p, f)\<close> that returned
  \<open>rc\<close>.
\<close>

record 'w extern =
  sqlite3_demovfs :: "'w \<Rightarrow> vfs_ptr \<times> 'w"
  sqlite3_vfs_register :: "vfs_ptr \<Rightarrow> int \<Rightarrow> 'w \<Rightarrow> int \<times> 'w"

record 'w process =
  world :: 'w
  calls :: "call list"

definition call_demovfs :: "'w extern \<Rightarrow> 'w process \<Rightarrow> vfs_ptr \<times> 'w process" where
  "call_demovfs E s =
     (case sqlite3_demovfs E (world s) of
        (p, w') \<Rightarrow> (p, \<lparr>world = w', calls = calls s @ [Call_demovfs p]\<rparr>))"

definition call_vfs_register ::
  "'w extern \<Rightarrow> vfs_ptr \<Rightarrow> int \<Rightarrow> 'w process \<Rightarrow> int \<times> 'w process" where
  "call_vfs_register E p makeDflt s =
     (case sqlite3_vfs_register E p makeDflt (world s) of
        (rc, w') \<Rightarrow> (rc, \<lparr>world = w', calls = calls s @ [Call_vfs_register p makeDflt rc]\<rparr>))"

subsection \<open>The two hooks\<close>

text \<open>
  \<open>sqlite3_os_init\<close>: the argument \<open>sqlite3_demovfs()\<close> is evaluated first, then
  \<open>sqlite3_vfs_register\<close> is called with it and the constant \<open>0\<close>; the value that
  call returns (\<open>rc\<close>) is not used; the function returns the constant \<open>0\<close>.
\<close>

definition sqlite3_os_init :: "'w extern \<Rightarrow> 'w process \<Rightarrow> int \<times> 'w process" where
  "sqlite3_os_init E s =
     (case call_demovfs E s of
        (p, s1) \<Rightarrow>
          (case call_vfs_register E p 0 s1 of
             (rc, s2) \<Rightarrow> (0, s2)))"

definition sqlite3_os_end :: "'w extern \<Rightarrow> 'w process \<Rightarrow> int \<times> 'w process" where
  "sqlite3_os_end E s = (0, s)"

subsection \<open>The hooks as control flow\<close>

text \<open>
  The same two bodies, one statement at a time. \<open>Init_entry\<close> stands before the
  evaluation of the argument \<open>sqlite3_demovfs()\<close>; \<open>Init_register p\<close> before the
  call \<open>sqlite3_vfs_register(p, 0)\<close>; \<open>Init_return\<close> and \<open>End_entry\<close> before the
  two \<open>return 0\<close>; \<open>Returned r\<close> is the hook having returned \<open>r\<close>. Neither body
  has a loop or a jump, so every step leads to a later point of the text. The external
  functions are taken to return (they are total functions of the state).
\<close>

datatype ctrl =
    Init_entry
  | Init_register vfs_ptr
  | Init_return
  | End_entry
  | Returned int

fun step :: "'w extern \<Rightarrow> ctrl \<Rightarrow> 'w process \<Rightarrow> ctrl \<times> 'w process" where
  "step E Init_entry s = (case call_demovfs E s of (p, s1) \<Rightarrow> (Init_register p, s1))"
| "step E (Init_register p) s =
     (case call_vfs_register E p 0 s of (rc, s2) \<Rightarrow> (Init_return, s2))"
| "step E Init_return s = (Returned 0, s)"
| "step E End_entry s = (Returned 0, s)"
| "step E (Returned r) s = (Returned r, s)"

text \<open>
  \<open>exec E n c s\<close> runs from the point \<open>c\<close> for at most \<open>n\<close> steps: the returned
  status and the state left, or \<open>None\<close> when the hook has not returned by then.
\<close>

fun exec :: "'w extern \<Rightarrow> nat \<Rightarrow> ctrl \<Rightarrow> 'w process \<Rightarrow> (int \<times> 'w process) option" where
  "exec E n (Returned r) s = Some (r, s)"
| "exec E 0 c s = None"
| "exec E (Suc n) c s = (case step E c s of (c', s') \<Rightarrow> exec E n c' s')"

subsection \<open>Sequences of calls\<close>

text \<open>
  \<open>init_end_cycles E n s\<close>: the host calls \<open>sqlite3_os_init(); sqlite3_os_end();\<close>
  \<open>n\<close> times in a row from the state \<open>s\<close>. The result is the list of the \<open>2 * n\<close>
  returned status codes, in the order of the calls, and the state left.
\<close>

fun init_end_cycles :: "'w extern \<Rightarrow> nat \<Rightarrow> 'w process \<Rightarrow> int list \<times> 'w process" where
  "init_end_cycles E 0 s = ([], s)"
| "init_end_cycles E (Suc n) s =
     (case sqlite3_os_init E s of
        (r1, s1) \<Rightarrow>
          (case sqlite3_os_end E s1 of
             (r2, s2) \<Rightarrow>
               (case init_end_cycles E n s2 of
                  (rs, s') \<Rightarrow> (r1 # r2 # rs, s'))))"

subsection \<open>The host's lifecycle protocol\<close>

text \<open>
  Modelled from the spec: the two lifecycle states and the two calls of the spec's
  state machine. The code of c/os.c stores no lifecycle state; the state is the
  host engine's, whose code is missing.
\<close>

datatype lifecycle = UNINITIALIZED | INITIALIZED

datatype lifecycle_call = Initialize | Shutdown

text \<open>
  Modelled from the spec: the host engine's call protocol, whose code is missing.
  The spec: "State machine: two states, UNINITIALIZED \<open>\<rightarrow>\<close> INITIALIZED (via
  \<open>initialize\<close>), and INITIALIZED \<open>\<rightarrow>\<close> UNINITIALIZED (via \<open>shutdown\<close>, no-op
  transition). No other transitions exist. The state is process-wide"; "the host
  engine is responsible for calling it exactly once per process lifecycle"; each hook
  returns "an integer status code where \<open>0\<close> conventionally means success". The
  host keeps the lifecycle state beside the process state, and a transition is a call
  of a hook by the host. An \<open>UNINITIALIZED\<close> host calls \<open>sqlite3_os_init\<close>; it is
  \<open>INITIALIZED\<close> afterwards when the hook reports success and still
  \<open>UNINITIALIZED\<close> on any other status. An \<open>INITIALIZED\<close> host calls
  \<open>sqlite3_os_end\<close> and is \<open>UNINITIALIZED\<close> afterwards. The host makes no other
  call of a hook: \<open>None\<close>.
\<close>

fun host_step ::
  "'w extern \<Rightarrow> lifecycle_call \<Rightarrow> lifecycle \<times> 'w process \<Rightarrow> (lifecycle \<times> 'w process) option" where
  "host_step E Initialize (UNINITIALIZED, s) =
     (case sqlite3_os_init E s of
        (rc, s') \<Rightarrow> Some (if rc = 0 then INITIALIZED else UNINITIALIZED, s'))"
| "host_step E Shutdown (INITIALIZED, s) =
     (case sqlite3_os_end E s of (rc, s') \<Rightarrow> Some (UNINITIALIZED, s'))"
| "host_step E Initialize (INITIALIZED, s) = None"
| "host_step E Shutdown (UNINITIALIZED, s) = None"

section \<open>The engine's registry\<close>

text \<open>
  The registry and its registration function belong to the SQLite engine and the
  backend's constructor to the VFS provider; neither is defined in c/os.c. The claims
  about what the registry holds after a call are settled against the following model.
\<close>

text \<open>
  Modelled from the spec: the registry, whose code (\<open>sqlite3_vfs_register\<close> and the
  data it keeps) is missing. The spec calls it "the engine-owned table mapping backend
  names to backend descriptors, including which one is currently the default"; a
  descriptor has a declared name; registration can fail ("name collision, allocation
  failure in the registry"). The table is a list of entries, so that a duplicate would
  show. \<open>register_fault\<close> is the pending failure of the registry: \<open>0\<close> when it
  accepts registrations, else the status code with which it refuses them.
  \<open>demo_vfs\<close> is the address of the "statically-provided backend descriptor".
\<close>

record engine =
  vfs_table :: "(string \<times> vfs_ptr) list"
  vfs_default :: "string option"
  declared_name :: "vfs_ptr \<Rightarrow> string"
  demo_vfs :: vfs_ptr
  register_fault :: int

text \<open>
  Modelled from the spec: the constructor \<open>sqlite3_demovfs\<close>, whose code is missing:
  "a backend-descriptor constructor function supplied by the external VFS provider,
  taking no arguments and returning an opaque descriptor".
\<close>

definition engine_demovfs :: "engine \<Rightarrow> vfs_ptr \<times> engine" where
  "engine_demovfs w = (demo_vfs w, w)"

text \<open>
  Modelled from the spec: the registration function \<open>sqlite3_vfs_register\<close>, whose
  code is missing: "a registry-registration function taking a backend descriptor
  pointer and a flag indicating whether the backend should become the default". A
  registration that fails returns its status code and leaves the registry as it was.
  One that succeeds returns \<open>0\<close>, replaces whatever the table held under the
  descriptor's declared name ("last registration wins") and, when the flag is not
  \<open>0\<close>, makes that name the default. The spec does not say what a registration
  with the flag \<open>0\<close> does to a registry that has no default yet; the model leaves
  such a registry without one, and no statement below is about the default in that
  case.
\<close>

definition engine_vfs_register :: "vfs_ptr \<Rightarrow> int \<Rightarrow> engine \<Rightarrow> int \<times> engine" where
  "engine_vfs_register p makeDflt w =
     (if register_fault w \<noteq> 0 then (register_fault w, w)
      else (0, w\<lparr>vfs_table :=
                     (declared_name w p, p) #
                       filter (\<lambda>e. fst e \<noteq> declared_name w p) (vfs_table w),
                   vfs_default :=
                     (if makeDflt \<noteq> 0 then Some (declared_name w p) else vfs_default w)\<rparr>))"

definition engine_fns :: "engine extern" where
  "engine_fns =
     \<lparr>sqlite3_demovfs = engine_demovfs, sqlite3_vfs_register = engine_vfs_register\<rparr>"

text \<open>The declared name of the demo backend, and the number of entries under a name.\<close>

definition demo_name :: "engine \<Rightarrow> string" where
  "demo_name w = declared_name w (demo_vfs w)"

definition entries_named :: "string \<Rightarrow> engine \<Rightarrow> nat" where
  "entries_named n w = length (filter (\<lambda>e. fst e = n) (vfs_table w))"

subsection \<open>Registering a backend that is registered already\<close>

text \<open>
  Modelled from the spec: what the registry does with a registration when the
  backend is registered already, which the missing code decides. The spec leaves it
  open: the registration call "is typically tolerant of being invoked multiple times
  (last registration wins, or no-op if already registered under the same name)", and
  it does not say whether the registration that wins replaces the entries of the same
  name or the earlier entry of the same descriptor. The three readings:
  \<open>Replace_by_name\<close>, the new entry replaces every entry under its name (this is
  \<open>engine_vfs_register\<close>); \<open>Keep_by_name\<close>, the registration is a no-op when the
  table holds an entry under the name; \<open>Replace_by_descriptor\<close>, the new entry
  replaces the earlier entries of the same descriptor and the entries of other
  descriptors stay, whatever their names.
\<close>

datatype reregistration = Replace_by_name | Keep_by_name | Replace_by_descriptor

definition registry_vfs_register ::
  "reregistration \<Rightarrow> vfs_ptr \<Rightarrow> int \<Rightarrow> engine \<Rightarrow> int \<times> engine" where
  "registry_vfs_register pol p makeDflt w =
     (if register_fault w \<noteq> 0 then (register_fault w, w)
      else
        (case pol of
           Replace_by_name \<Rightarrow> engine_vfs_register p makeDflt w
         | Keep_by_name \<Rightarrow>
             (if entries_named (declared_name w p) w = 0
              then engine_vfs_register p makeDflt w else (0, w))
         | Replace_by_descriptor \<Rightarrow>
             (0, w\<lparr>vfs_table :=
                      (declared_name w p, p) # filter (\<lambda>e. snd e \<noteq> p) (vfs_table w),
                    vfs_default :=
                      (if makeDflt \<noteq> 0 then Some (declared_name w p)
                       else vfs_default w)\<rparr>)))"

definition registry_fns :: "reregistration \<Rightarrow> engine extern" where
  "registry_fns pol =
     \<lparr>sqlite3_demovfs = engine_demovfs, sqlite3_vfs_register = registry_vfs_register pol\<rparr>"

text \<open>
  The table holds, under the demo backend's declared name, either nothing or only the
  demo backend's own entry.
\<close>

definition name_free_or_own :: "engine \<Rightarrow> bool" where
  "name_free_or_own w =
     (filter (\<lambda>e. fst e = demo_name w) (vfs_table w) = []
      \<or> filter (\<lambda>e. fst e = demo_name w) (vfs_table w) = [(demo_name w, demo_vfs w)])"

subsection \<open>Three concrete processes\<close>

text \<open>
  In all three the demo backend is the descriptor at address 1, declared name
  \<open>demo\<close>. \<open>st_unix\<close>: another backend, named \<open>unix\<close>, is registered and is
  the default. \<open>st_nomem\<close>: an empty registry that refuses registrations with
  status 7 (\<open>SQLITE_NOMEM\<close>). \<open>st_clash\<close>: another descriptor, at address 3, is
  registered under the name \<open>demo\<close> too.
\<close>

definition st_unix :: "engine process" where
  "st_unix =
     \<lparr>world = \<lparr>vfs_table = [(''unix'', 2)], vfs_default = Some ''unix'',
                declared_name = (\<lambda>p. if p = 1 then ''demo'' else ''unix''),
                demo_vfs = 1, register_fault = 0\<rparr>,
      calls = []\<rparr>"

definition st_nomem :: "engine process" where
  "st_nomem =
     \<lparr>world = \<lparr>vfs_table = [], vfs_default = None,
                declared_name = (\<lambda>p. if p = 1 then ''demo'' else ''unix''),
                demo_vfs = 1, register_fault = 7\<rparr>,
      calls = []\<rparr>"

definition st_clash :: "engine process" where
  "st_clash =
     \<lparr>world = \<lparr>vfs_table = [(''demo'', 3)], vfs_default = Some ''demo'',
                declared_name = (\<lambda>p. if p = 1 \<or> p = 3 then ''demo'' else ''unix''),
                demo_vfs = 1, register_fault = 0\<rparr>,
      calls = []\<rparr>"

section \<open>Properties of the hooks, for any external functions\<close>

lemma sqlite3_os_init_unfold:
  "sqlite3_os_init E s =
     (0, snd (call_vfs_register E (fst (call_demovfs E s)) 0 (snd (call_demovfs E s))))"
  by (simp add: sqlite3_os_init_def split: prod.split)

lemma call_demovfs_unfold:
  "call_demovfs E s =
     (fst (sqlite3_demovfs E (world s)),
      \<lparr>world = snd (sqlite3_demovfs E (world s)),
       calls = calls s @ [Call_demovfs (fst (sqlite3_demovfs E (world s)))]\<rparr>)"
  by (simp add: call_demovfs_def split: prod.split)

lemma call_vfs_register_unfold:
  "call_vfs_register E p f s =
     (fst (sqlite3_vfs_register E p f (world s)),
      \<lparr>world = snd (sqlite3_vfs_register E p f (world s)),
       calls = calls s @ [Call_vfs_register p f (fst (sqlite3_vfs_register E p f (world s)))]\<rparr>)"
  by (simp add: call_vfs_register_def split: prod.split)

text \<open>
  C1. For every state, failing registrations included (the external functions and the
  state are arbitrary, so the registration call may return any code),
  \<open>sqlite3_os_init\<close> returns 0: the code the registration call returns does not
  reach the result.
\<close>

theorem sqlite3_os_init_returns_0:
  "fst (sqlite3_os_init E s) = 0"
  by (simp add: sqlite3_os_init_def split: prod.split)

text \<open>
  C3. \<open>sqlite3_os_end\<close> changes nothing: for every state it returns 0 and the state
  it leaves (the world and the log of external calls) is the state it was called in.
\<close>

theorem sqlite3_os_end_noop:
  "sqlite3_os_end E s = (0, s)"
  by (simp add: sqlite3_os_end_def)

text \<open>
  C4. Whatever state a call of \<open>sqlite3_os_init\<close> leaves, a call of
  \<open>sqlite3_os_end\<close> after it leaves the process-wide state, the registry in it,
  as it found it: nothing \<open>sqlite3_os_init\<close> installed is removed or changed.
\<close>

theorem sqlite3_os_end_keeps_registry:
  "world (snd (sqlite3_os_end E (snd (sqlite3_os_init E s)))) =
     world (snd (sqlite3_os_init E s))"
  by (simp add: sqlite3_os_end_def)

text \<open>
  C5. From every state and for every \<open>n\<close> (so for every \<open>n \<ge> 1\<close>), the sequence
  \<open>sqlite3_os_init(); sqlite3_os_end();\<close> run \<open>n\<close> times returns 0 from each of
  its \<open>2 * n\<close> calls.
\<close>

theorem init_end_cycles_all_0:
  "fst (init_end_cycles E n s) = replicate (2 * n) 0"
  by (induction n arbitrary: s)
     (simp_all add: sqlite3_os_init_unfold sqlite3_os_end_def case_prod_beta)

text \<open>
  C8. Both hooks return from every state after a fixed number of steps, the external
  functions returning: \<open>sqlite3_os_init\<close> after exactly three (the constructor call,
  the registration call, the return), \<open>sqlite3_os_end\<close> after exactly one, and with
  the result of the functional model. \<open>sqlite3_os_init\<close> makes two external calls,
  \<open>sqlite3_os_end\<close> none.
\<close>

theorem hooks_return_in_bounded_steps:
  "exec E (3 + k) Init_entry s = Some (sqlite3_os_init E s)
   \<and> exec E 2 Init_entry s = None
   \<and> exec E (1 + k) End_entry s = Some (sqlite3_os_end E s)
   \<and> exec E 0 End_entry s = None
   \<and> length (calls (snd (sqlite3_os_init E s))) = length (calls s) + 2
   \<and> length (calls (snd (sqlite3_os_end E s))) = length (calls s)"
proof -
  have three: "3 + k = Suc (Suc (Suc k))" and two: "(2::nat) = Suc (Suc 0)"
    by simp_all
  have "exec E (3 + k) Init_entry s = Some (sqlite3_os_init E s)"
    unfolding three by (simp add: sqlite3_os_init_def split: prod.split)
  moreover have "exec E 2 Init_entry s = None"
    unfolding two by (simp split: prod.split)
  moreover have "exec E (1 + k) End_entry s = Some (sqlite3_os_end E s)"
    by (simp add: sqlite3_os_end_def)
  moreover have "exec E 0 End_entry s = None"
    by simp
  moreover have "length (calls (snd (sqlite3_os_init E s))) = length (calls s) + 2"
    by (simp add: sqlite3_os_init_unfold call_demovfs_unfold call_vfs_register_unfold)
  moreover have "length (calls (snd (sqlite3_os_end E s))) = length (calls s)"
    by (simp add: sqlite3_os_end_def)
  ultimately show ?thesis by blast
qed

text \<open>
  C9. A call of \<open>sqlite3_os_init\<close> adds exactly two external calls to the log: one
  call of \<open>sqlite3_demovfs\<close>, then one call of \<open>sqlite3_vfs_register\<close> whose first
  argument is the pointer that constructor call returned and whose second argument
  is 0. The state it leaves is the one those two calls leave.
\<close>

theorem sqlite3_os_init_external_calls:
  "calls (snd (sqlite3_os_init E s)) =
     calls s @
       [Call_demovfs (fst (sqlite3_demovfs E (world s))),
        Call_vfs_register (fst (sqlite3_demovfs E (world s))) 0
          (fst (sqlite3_vfs_register E (fst (sqlite3_demovfs E (world s))) 0
                  (snd (sqlite3_demovfs E (world s)))))]
   \<and> world (snd (sqlite3_os_init E s)) =
       snd (sqlite3_vfs_register E (fst (sqlite3_demovfs E (world s))) 0
              (snd (sqlite3_demovfs E (world s))))"
  by (simp add: sqlite3_os_init_unfold call_demovfs_unfold call_vfs_register_unfold)

text \<open>
  C10. The status either hook returns does not depend on the state: two runs of the
  same hook, from any two states (registry and call history) and even with different
  external functions, return the same status, and it is 0.
\<close>

theorem hook_status_independent_of_state:
  "fst (sqlite3_os_init E s) = fst (sqlite3_os_init E' s')
   \<and> fst (sqlite3_os_end E s) = fst (sqlite3_os_end E' s')
   \<and> fst (sqlite3_os_init E s) = 0 \<and> fst (sqlite3_os_end E s) = 0"
  by (simp add: sqlite3_os_init_unfold sqlite3_os_end_def)

section \<open>Properties of the hooks on the modelled registry\<close>

lemma world_init_engine:
  "world (snd (sqlite3_os_init engine_fns s)) =
     snd (engine_vfs_register (demo_vfs (world s)) 0 (world s))"
  by (simp add: sqlite3_os_init_unfold call_demovfs_unfold call_vfs_register_unfold
      engine_fns_def engine_demovfs_def)

lemma calls_init_engine:
  "calls (snd (sqlite3_os_init engine_fns s)) =
     calls s @ [Call_demovfs (demo_vfs (world s)),
                Call_vfs_register (demo_vfs (world s)) 0 (register_fault (world s))]"
  by (simp add: sqlite3_os_init_unfold call_demovfs_unfold call_vfs_register_unfold
      engine_fns_def engine_demovfs_def engine_vfs_register_def)

lemma world_init_engine_ok:
  "register_fault (world s) = 0 \<Longrightarrow>
   world (snd (sqlite3_os_init engine_fns s)) =
     (world s)\<lparr>vfs_table :=
                  (demo_name (world s), demo_vfs (world s)) #
                    filter (\<lambda>e. fst e \<noteq> demo_name (world s)) (vfs_table (world s))\<rparr>"
  by (simp add: world_init_engine engine_vfs_register_def demo_name_def)

text \<open>
  C2, as amended. After a call of \<open>sqlite3_os_init\<close> whose registration call
  succeeds, the registry holds the descriptor the constructor returned, under its
  declared name. The registration is submitted with the flag 0, that is without a
  request to make the backend the default: a backend of another name that was the
  default before the call is still the default after it.
\<close>

theorem sqlite3_os_init_registers_demovfs:
  assumes "register_fault (world s) = 0"
  shows "map_of (vfs_table (world (snd (sqlite3_os_init engine_fns s)))) (demo_name (world s))
           = Some (demo_vfs (world s))
       \<and> last (calls (snd (sqlite3_os_init engine_fns s)))
           = Call_vfs_register (demo_vfs (world s)) 0 0
       \<and> (vfs_default (world s) = Some m \<and> m \<noteq> demo_name (world s) \<longrightarrow>
            vfs_default (world (snd (sqlite3_os_init engine_fns s))) = Some m)"
  using assms by (simp add: world_init_engine_ok calls_init_engine)

text \<open>
  The amended C2 at \<open>st_unix\<close>, where the registry accepts the registration and
  \<open>unix\<close> is the default.
\<close>

theorem sqlite3_os_init_registers_demovfs_witness:
  "register_fault (world st_unix) = 0
   \<and> vfs_default (world st_unix) = Some ''unix''
   \<and> ''unix'' \<noteq> demo_name (world st_unix)
   \<and> map_of (vfs_table (world (snd (sqlite3_os_init engine_fns st_unix)))) ''demo'' = Some 1
   \<and> last (calls (snd (sqlite3_os_init engine_fns st_unix))) = Call_vfs_register 1 0 0
   \<and> vfs_default (world (snd (sqlite3_os_init engine_fns st_unix))) = Some ''unix''"
  using sqlite3_os_init_registers_demovfs [of st_unix "''unix''"]
  by (simp add: st_unix_def demo_name_def)

text \<open>
  C2 as stated fails twice. From \<open>st_unix\<close> the call returns 0 and the registry
  holds the demo backend, but the default is still \<open>unix\<close>. From \<open>st_nomem\<close> the
  call returns 0 as well, and the registry holds no entry for the demo backend.
\<close>

theorem sqlite3_os_init_default_counterexample:
  "fst (sqlite3_os_init engine_fns st_unix) = 0
   \<and> map_of (vfs_table (world (snd (sqlite3_os_init engine_fns st_unix)))) ''demo'' = Some 1
   \<and> vfs_default (world (snd (sqlite3_os_init engine_fns st_unix))) = Some ''unix''
   \<and> fst (sqlite3_os_init engine_fns st_nomem) = 0
   \<and> map_of (vfs_table (world (snd (sqlite3_os_init engine_fns st_nomem)))) ''demo'' = None"
  by (simp add: sqlite3_os_init_def call_demovfs_def call_vfs_register_def engine_fns_def
      engine_demovfs_def engine_vfs_register_def st_unix_def st_nomem_def)

subsection \<open>Registering twice\<close>

lemma world_init_registry:
  "world (snd (sqlite3_os_init (registry_fns pol) s)) =
     snd (registry_vfs_register pol (demo_vfs (world s)) 0 (world s))"
  by (simp add: sqlite3_os_init_unfold call_demovfs_unfold call_vfs_register_unfold
      registry_fns_def engine_demovfs_def)

lemma filter_fst_snd_commute:
  "filter (\<lambda>e. fst e = n) (filter (\<lambda>e. snd e \<noteq> p) xs) =
     filter (\<lambda>e. snd e \<noteq> p) (filter (\<lambda>e. fst e = n) xs)"
  by (induction xs) simp_all

lemma filter_fst_eq_neq:
  "filter (\<lambda>e. fst e = n) (filter (\<lambda>e. fst e \<noteq> n) xs) = []"
  by (induction xs) simp_all

lemma filter_own_out:
  assumes "filter (\<lambda>e. fst e = n) xs = [] \<or> filter (\<lambda>e. fst e = n) xs = [(n, p)]"
  shows "filter (\<lambda>e. fst e = n) (filter (\<lambda>e. snd e \<noteq> p) xs) = []"
proof -
  have "filter (\<lambda>e. fst e = n) (filter (\<lambda>e. snd e \<noteq> p) xs) =
      filter (\<lambda>e. snd e \<noteq> p) (filter (\<lambda>e. fst e = n) xs)"
    by (rule filter_fst_snd_commute)
  also from assms have "\<dots> = []"
    by (auto simp del: filter_filter)
  finally show ?thesis .
qed

lemma register_once:
  assumes ok: "register_fault w = 0" and own: "name_free_or_own w"
  shows "filter (\<lambda>e. fst e = demo_name w)
           (vfs_table (snd (registry_vfs_register pol (demo_vfs w) 0 w)))
           = [(demo_name w, demo_vfs w)]"
    and "register_fault (snd (registry_vfs_register pol (demo_vfs w) 0 w)) = 0"
    and "declared_name (snd (registry_vfs_register pol (demo_vfs w) 0 w)) = declared_name w"
    and "demo_vfs (snd (registry_vfs_register pol (demo_vfs w) 0 w)) = demo_vfs w"
proof -
  let ?n = "demo_name w" and ?p = "demo_vfs w"
  have n: "declared_name w ?p = ?n" by (simp add: demo_name_def)
  show "filter (\<lambda>e. fst e = ?n) (vfs_table (snd (registry_vfs_register pol ?p 0 w)))
          = [(?n, ?p)]"
  proof (cases pol)
    case Replace_by_name
    then show ?thesis
      using ok by (simp add: registry_vfs_register_def engine_vfs_register_def n filter_fst_eq_neq)
  next
    case Keep_by_name
    show ?thesis
    proof (cases "entries_named ?n w = 0")
      case True
      then show ?thesis
        using ok Keep_by_name
        by (simp add: registry_vfs_register_def engine_vfs_register_def n filter_fst_eq_neq)
    next
      case False
      then have "filter (\<lambda>e. fst e = ?n) (vfs_table w) \<noteq> []"
        by (simp add: entries_named_def)
      with own have "filter (\<lambda>e. fst e = ?n) (vfs_table w) = [(?n, ?p)]"
        by (simp add: name_free_or_own_def)
      with False show ?thesis
        using ok Keep_by_name by (simp add: registry_vfs_register_def n)
    qed
  next
    case Replace_by_descriptor
    have "filter (\<lambda>e. fst e = ?n) (filter (\<lambda>e. snd e \<noteq> ?p) (vfs_table w)) = []"
      using own unfolding name_free_or_own_def by (rule filter_own_out)
    then show ?thesis
      using ok Replace_by_descriptor
      by (simp add: registry_vfs_register_def n del: filter_filter)
  qed
  show "register_fault (snd (registry_vfs_register pol ?p 0 w)) = 0"
    using ok by (cases pol) (simp_all add: registry_vfs_register_def engine_vfs_register_def)
  show "declared_name (snd (registry_vfs_register pol ?p 0 w)) = declared_name w"
    using ok by (cases pol) (simp_all add: registry_vfs_register_def engine_vfs_register_def)
  show "demo_vfs (snd (registry_vfs_register pol ?p 0 w)) = demo_vfs w"
    using ok by (cases pol) (simp_all add: registry_vfs_register_def engine_vfs_register_def)
qed

text \<open>
  C6, as amended. Two calls of \<open>sqlite3_os_init\<close> in a row do not fault: both
  return 0. When the registry accepts registrations and holds, under the backend's
  registered name, nothing or only the backend's own entry, it holds exactly one entry
  under that name afterwards, whichever way it treats the second registration (the
  last registration wins, or it is a no-op): never a duplicate.
\<close>

theorem sqlite3_os_init_twice_one_entry:
  assumes "register_fault (world s) = 0" and "name_free_or_own (world s)"
  shows "fst (sqlite3_os_init (registry_fns pol) s) = 0
       \<and> fst (sqlite3_os_init (registry_fns pol) (snd (sqlite3_os_init (registry_fns pol) s))) = 0
       \<and> entries_named (demo_name (world s))
           (world (snd (sqlite3_os_init (registry_fns pol)
                     (snd (sqlite3_os_init (registry_fns pol) s))))) = 1"
proof -
  let ?s1 = "snd (sqlite3_os_init (registry_fns pol) s)"
  let ?s2 = "snd (sqlite3_os_init (registry_fns pol) ?s1)"
  let ?n = "demo_name (world s)"
  note first = register_once [OF assms, of pol, folded world_init_registry]
  have n1: "demo_name (world ?s1) = ?n"
    by (simp add: demo_name_def first)
  have ok1: "register_fault (world ?s1) = 0"
    by (rule first)
  have own1: "name_free_or_own (world ?s1)"
    by (simp add: name_free_or_own_def n1 first)
  note second = register_once [OF ok1 own1, of pol, folded world_init_registry]
  have "filter (\<lambda>e. fst e = ?n) (vfs_table (world ?s2)) = [(?n, demo_vfs (world s))]"
    using second(1) by (simp add: n1 first)
  then have "entries_named ?n (world ?s2) = 1"
    by (simp add: entries_named_def)
  moreover have "fst (sqlite3_os_init (registry_fns pol) s) = 0"
    "fst (sqlite3_os_init (registry_fns pol) ?s1) = 0"
    by (simp_all add: sqlite3_os_init_unfold)
  ultimately show ?thesis by blast
qed

text \<open>
  The amended C6 at \<open>st_unix\<close>, whose registry accepts registrations and holds
  nothing under the name \<open>demo\<close>, for a registry that keeps what it has.
\<close>

theorem sqlite3_os_init_twice_one_entry_witness:
  "register_fault (world st_unix) = 0
   \<and> name_free_or_own (world st_unix)
   \<and> fst (sqlite3_os_init (registry_fns Keep_by_name)
            (snd (sqlite3_os_init (registry_fns Keep_by_name) st_unix))) = 0
   \<and> entries_named ''demo''
        (world (snd (sqlite3_os_init (registry_fns Keep_by_name)
                  (snd (sqlite3_os_init (registry_fns Keep_by_name) st_unix))))) = 1"
proof -
  have h: "register_fault (world st_unix) = 0" "name_free_or_own (world st_unix)"
    by (simp_all add: st_unix_def name_free_or_own_def demo_name_def)
  from sqlite3_os_init_twice_one_entry [OF h, of Keep_by_name] h show ?thesis
    by (simp add: st_unix_def demo_name_def)
qed

text \<open>
  C6 as stated fails twice. From \<open>st_nomem\<close> both calls return 0, both
  registrations are refused, and the registry holds no entry under the name
  \<open>demo\<close>. From \<open>st_clash\<close>, where the registry accepts registrations, a
  registry that replaces by descriptor holds two entries under the name \<open>demo\<close>
  after the two calls: the other descriptor's and the demo backend's.
\<close>

theorem sqlite3_os_init_twice_counterexample:
  "fst (sqlite3_os_init (registry_fns Replace_by_name) st_nomem) = 0
   \<and> fst (sqlite3_os_init (registry_fns Replace_by_name)
            (snd (sqlite3_os_init (registry_fns Replace_by_name) st_nomem))) = 0
   \<and> entries_named ''demo''
        (world (snd (sqlite3_os_init (registry_fns Replace_by_name)
                  (snd (sqlite3_os_init (registry_fns Replace_by_name) st_nomem))))) = 0
   \<and> register_fault (world st_clash) = 0
   \<and> entries_named ''demo''
        (world (snd (sqlite3_os_init (registry_fns Replace_by_descriptor)
                  (snd (sqlite3_os_init (registry_fns Replace_by_descriptor) st_clash))))) = 2"
  by (simp add: sqlite3_os_init_def call_demovfs_def call_vfs_register_def registry_fns_def
      engine_demovfs_def registry_vfs_register_def engine_vfs_register_def entries_named_def
      st_nomem_def st_clash_def)

section \<open>The hooks under the host's protocol\<close>

text \<open>
  C7. The lifecycle is a machine of two states with exactly two transitions. From
  \<open>UNINITIALIZED\<close> the only step is \<open>Initialize\<close>, and it leads to
  \<open>INITIALIZED\<close>, always, since \<open>sqlite3_os_init\<close> never reports a failure. From
  \<open>INITIALIZED\<close> the only step is \<open>Shutdown\<close>, and it leads to
  \<open>UNINITIALIZED\<close> and leaves the process state as it was. There is no other
  transition.
\<close>

theorem host_step_two_transitions:
  "host_step E c (l, s) =
     (if l = UNINITIALIZED \<and> c = Initialize
      then Some (INITIALIZED, snd (sqlite3_os_init E s))
      else if l = INITIALIZED \<and> c = Shutdown then Some (UNINITIALIZED, s)
      else None)"
  by (cases l; cases c) (simp_all add: sqlite3_os_init_unfold sqlite3_os_end_def)

end
